theory Spec2Isabelle
  imports Main
begin

section \<open>The Conduit client: parameter encoder and request dispatcher\<close>

text \<open>
  This theory embeds the class \<^verbatim>\<open>ConduitBase\<close> of \<^verbatim>\<open>conduit.py\<close>: the methods
  \<^verbatim>\<open>_build\<close>, \<^verbatim>\<open>_encode_list\<close>, \<^verbatim>\<open>_encode_dict\<close>, \<^verbatim>\<open>_encode\<close>, \<^verbatim>\<open>_execute\<close> and
  \<^verbatim>\<open>_go\<close>. Python strings are modelled as \<^typ>\<open>string\<close>, generators as the list of
  what they yield, and every exception as a value of the type \<open>error\<close>.
\<close>

subsection \<open>Data model\<close>

text \<open>
  A parameter tree is what the callers pass as \<^verbatim>\<open>params\<close>: a \<^verbatim>\<open>str\<close>, a \<^verbatim>\<open>dict\<close>
  with string keys, or any other iterable (a \<^verbatim>\<open>list\<close>). A dict is kept as the list of
  its items in iteration order; the keys of a Python dict are pairwise distinct, so
  \<^verbatim>\<open>vals[item]\<close> inside \<^verbatim>\<open>for item in vals\<close> is the second component of the item.
\<close>

datatype tree =
    Str string
  | Dict "(string \<times> tree) list"
  | Lst "tree list"

text \<open>A decoded JSON document, as \<^verbatim>\<open>json.loads\<close> returns it.\<close>

datatype json =
    JNull
  | JBool bool
  | JNum int
  | JStr string
  | JArr "json list"
  | JObj "(string \<times> json) list"

text \<open>
  The source raises the base class \<^verbatim>\<open>Exception\<close> at four places. The three raised
  for a missing prefix, token or host are \<open>ConfigurationError\<close> with the message of
  the raise statement; the one raised from the response envelope is \<open>ApiError\<close> with
  its argument \<^verbatim>\<open>res["error_info"]\<close>. The other constructors are the exceptions
  the Python run time and the libraries raise by themselves.
\<close>

datatype error =
    ConfigurationError string
  | ApiError json
  | TypeError
  | KeyError string
  | UnicodeEncodeError
  | ValueError
  | PycurlError
  | JSONDecodeError

subsection \<open>Strings\<close>

text \<open>\<^verbatim>\<open>str(idx)\<close> for a non-negative integer: its decimal digits.\<close>

definition digit :: "nat \<Rightarrow> char" where
  "digit d = char_of (48 + d)"

fun str :: "nat \<Rightarrow> string" where
  "str n = (if n < 10 then [digit n] else str (n div 10) @ [digit (n mod 10)])"

declare str.simps [simp del]

text \<open>\<^verbatim>\<open>sep.join(fields)\<close>.\<close>

fun join :: "string \<Rightarrow> string list \<Rightarrow> string" where
  "join sep [] = []"
| "join sep [x] = x"
| "join sep (x # y # ys) = x @ sep @ join sep (y # ys)"

subsection \<open>The parameter encoder\<close>

text \<open>
  \<^verbatim>\<open>_build(name, value)\<close> is \<^verbatim>\<open>name + "=" + value\<close>. The name is always a string;
  concatenating a string with a dict or a list raises \<^verbatim>\<open>TypeError\<close>.
\<close>

fun build :: "string \<Rightarrow> tree \<Rightarrow> error + string" where
  "build name (Str v) = Inr (name @ ''='' @ v)"
| "build name (Dict kvs) = Inl TypeError"
| "build name (Lst vs) = Inl TypeError"

text \<open>
  \<^verbatim>\<open>_encode_list\<close>: the loop over \<^verbatim>\<open>vals\<close> with its counter \<^verbatim>\<open>idx\<close>. Each element
  goes to \<^verbatim>\<open>_build\<close> as it is.
\<close>

fun encode_list_from :: "nat \<Rightarrow> string \<Rightarrow> tree list \<Rightarrow> error + string list" where
  "encode_list_from idx pfx [] = Inr []"
| "encode_list_from idx pfx (elem # rest) =
     (case build (pfx @ ''['' @ str idx @ '']'') elem of
        Inl e \<Rightarrow> Inl e
      | Inr p \<Rightarrow>
          (case encode_list_from (idx + 1) pfx rest of
             Inl e \<Rightarrow> Inl e
           | Inr ps \<Rightarrow> Inr (p # ps)))"

definition encode_list :: "string \<Rightarrow> tree list \<Rightarrow> error + string list" where
  "encode_list pfx vals = encode_list_from 0 pfx vals"

text \<open>
  \<^verbatim>\<open>_encode\<close> and \<^verbatim>\<open>_encode_dict\<close> call each other. The generators are consumed to
  the end by their only caller, so an exception raised while producing an element is
  the result of the whole encoding.
\<close>

fun encode :: "string \<Rightarrow> tree \<Rightarrow> bool \<Rightarrow> error + string list"
  and encode_dict :: "string \<Rightarrow> (string \<times> tree) list \<Rightarrow> bool \<Rightarrow> error + string list"
where
  "encode pfx (Str v) child = (case build pfx (Str v) of Inl e \<Rightarrow> Inl e | Inr p \<Rightarrow> Inr [p])"
| "encode pfx (Dict kvs) child = encode_dict pfx kvs child"
| "encode pfx (Lst vs) child = encode_list pfx vs"
| "encode_dict pfx [] nested = Inr []"
| "encode_dict pfx ((item, v) # rest) nested =
     (case encode (if nested then pfx @ ''['' @ item @ '']'' else item) v True of
        Inl e \<Rightarrow> Inl e
      | Inr es \<Rightarrow>
          (case encode_dict pfx rest nested of
             Inl e \<Rightarrow> Inl e
           | Inr fs \<Rightarrow> Inr (es @ fs)))"

subsection \<open>The request dispatcher\<close>

text \<open>
  The attributes of a \<^verbatim>\<open>ConduitBase\<close> object. All three are \<^verbatim>\<open>None\<close> in the class;
  the factory sets \<^verbatim>\<open>token\<close> and \<^verbatim>\<open>host\<close>, a subclass sets \<^verbatim>\<open>prefix\<close>.
\<close>

record conduit =
  token :: "string option"
  host :: "string option"
  prefix :: "string option"

text \<open>
  The transport is outside the repository. Its side of a call is modelled by a world:
  the requests performed so far, as pairs of URL and body, and the replies the server
  will give, in order. A reply is a transfer that fails (\<^verbatim>\<open>curl.perform()\<close> raises),
  a body that is not JSON (\<^verbatim>\<open>json.loads\<close> raises), or a body that decodes to a
  JSON value.
\<close>

datatype reply = Unreachable | Malformed | Answer json

record world =
  requests :: "(string \<times> string) list"
  replies :: "reply list"

definition perform :: "string \<Rightarrow> string \<Rightarrow> world \<Rightarrow> reply \<times> world" where
  "perform url posting w =
     (case replies w of
        [] \<Rightarrow> (Unreachable, w\<lparr>requests := requests w @ [(url, posting)]\<rparr>)
      | r # rs \<Rightarrow> (r, \<lparr>requests = requests w @ [(url, posting)], replies = rs\<rparr>))"

text \<open>\<^verbatim>\<open>len(parameters)\<close>.\<close>

fun len :: "tree \<Rightarrow> nat" where
  "len (Str v) = length v"
| "len (Dict kvs) = length kvs"
| "len (Lst vs) = length vs"

text \<open>
  \<^verbatim>\<open>params[key] = value\<close> on a dict: an existing key keeps its place and gets the
  new value, a new key goes to the end.
\<close>

definition setitem :: "string \<Rightarrow> tree \<Rightarrow> (string \<times> tree) list \<Rightarrow> (string \<times> tree) list" where
  "setitem key val kvs =
     (if key \<in> set (map fst kvs)
      then map (\<lambda>(k, v). if k = key then (k, val) else (k, v)) kvs
      else kvs @ [(key, val)])"

text \<open>\<^verbatim>\<open>res[key]\<close> on a decoded JSON value; only an object can be indexed by a string.\<close>

fun getitem :: "json \<Rightarrow> string \<Rightarrow> error + json" where
  "getitem (JObj kvs) key = (case map_of kvs key of None \<Rightarrow> Inl (KeyError key) | Some v \<Rightarrow> Inr v)"
| "getitem JNull key = Inl TypeError"
| "getitem (JBool b) key = Inl TypeError"
| "getitem (JNum n) key = Inl TypeError"
| "getitem (JStr s) key = Inl TypeError"
| "getitem (JArr xs) key = Inl TypeError"

text \<open>
  The body in manual mode (\<^verbatim>\<open>manual_post\<close> true): the token field, then the encoded
  parameters when there are parameters of non-zero length, joined by \<^verbatim>\<open>&\<close>.
\<close>

definition manual_posting :: "string \<Rightarrow> tree option \<Rightarrow> error + string" where
  "manual_posting tok parameters =
     (case build ''api.token'' (Str tok) of
        Inl e \<Rightarrow> Inl e
      | Inr f \<Rightarrow>
          (case parameters of
             None \<Rightarrow> Inr (join ''&'' [f])
           | Some p \<Rightarrow>
               if len p > 0
               then (case encode [] p False of
                       Inl e \<Rightarrow> Inl e
                     | Inr fs \<Rightarrow> Inr (join ''&'' (f # fs)))
               else Inr (join ''&'' [f])))"

text \<open>
  The body in standard mode: the token is stored into the caller's dict (a fresh one
  when there are no parameters) and the dict goes to \<^verbatim>\<open>urllib.parse.urlencode\<close>, a
  library function that the model takes as the parameter \<open>urlencode\<close>. Storing under
  a string key into a \<^verbatim>\<open>str\<close> or a \<^verbatim>\<open>list\<close> raises \<^verbatim>\<open>TypeError\<close>. The second
  component is the caller's \<^verbatim>\<open>parameters\<close> object afterwards.
\<close>

definition standard_posting ::
  "((string \<times> tree) list \<Rightarrow> string) \<Rightarrow> string \<Rightarrow> tree option \<Rightarrow> error + (string \<times> tree option)" where
  "standard_posting urlencode tok parameters =
     (case parameters of
        None \<Rightarrow> Inr (urlencode (setitem ''api.token'' (Str tok) []), None)
      | Some (Dict kvs) \<Rightarrow>
          Inr (urlencode (setitem ''api.token'' (Str tok) kvs),
               Some (Dict (setitem ''api.token'' (Str tok) kvs)))
      | Some (Str v) \<Rightarrow> Inl TypeError
      | Some (Lst vs) \<Rightarrow> Inl TypeError)"

definition make_posting ::
  "((string \<times> tree) list \<Rightarrow> string) \<Rightarrow> string \<Rightarrow> bool \<Rightarrow> tree option \<Rightarrow> error + (string \<times> tree option)" where
  "make_posting urlencode tok manual_post parameters =
     (if manual_post
      then (case manual_posting tok parameters of
              Inl e \<Rightarrow> Inl e
            | Inr posting \<Rightarrow> Inr (posting, parameters))
      else standard_posting urlencode tok parameters)"

text \<open>
  Unwrapping the envelope: \<^verbatim>\<open>res["error_code"]\<close> is read first; when it is \<^verbatim>\<open>None\<close>
  the call returns \<^verbatim>\<open>res["result"]\<close>, otherwise it raises with \<^verbatim>\<open>res["error_info"]\<close>.
\<close>

definition unwrap :: "json \<Rightarrow> error + json" where
  "unwrap res =
     (case getitem res ''error_code'' of
        Inl e \<Rightarrow> Inl e
      | Inr errored \<Rightarrow>
          if errored = JNull then getitem res ''result''
          else (case getitem res ''error_info'' of
                  Inl e \<Rightarrow> Inl e
                | Inr info \<Rightarrow> Inl (ApiError info)))"

text \<open>
  \<^verbatim>\<open>curl.setopt\<close> with a \<^verbatim>\<open>str\<close>. The library pycurl encodes a \<^verbatim>\<open>str\<close> option
  with the ASCII codec and raises \<^verbatim>\<open>UnicodeEncodeError\<close> on a character above 127.
  The URL is then taken as a C string, where a NUL character raises \<^verbatim>\<open>ValueError\<close>;
  the post fields are taken with their length. The result is the exception raised, if
  any.
\<close>

definition ascii :: "string \<Rightarrow> bool" where
  "ascii v = list_all (\<lambda>c. (of_char c :: nat) < 128) v"

definition setopt_URL :: "string \<Rightarrow> error option" where
  "setopt_URL v =
     (if \<not> ascii v then Some UnicodeEncodeError
      else if CHR 0x00 \<in> set v then Some ValueError
      else None)"

definition setopt_POSTFIELDS :: "string \<Rightarrow> error option" where
  "setopt_POSTFIELDS v = (if \<not> ascii v then Some UnicodeEncodeError else None)"

text \<open>
  \<^verbatim>\<open>_execute\<close>, in the order of the source: the checks of token and host, the URL
  set on the handle, the body built, the body set on the handle, the transfer, the
  envelope. The result is what the call returns or raises, the world after the call,
  and the caller's \<^verbatim>\<open>parameters\<close> object after the call.
\<close>

definition execute ::
  "((string \<times> tree) list \<Rightarrow> string) \<Rightarrow> conduit \<Rightarrow> string \<Rightarrow> bool \<Rightarrow> tree option \<Rightarrow> world
     \<Rightarrow> (error + json) \<times> world \<times> tree option" where
  "execute urlencode self endpoint manual_post parameters w =
     (case token self of
        None \<Rightarrow> (Inl (ConfigurationError ''no token given...''), w, parameters)
      | Some tok \<Rightarrow>
          (case host self of
             None \<Rightarrow> (Inl (ConfigurationError ''no host given...''), w, parameters)
           | Some h \<Rightarrow>
               (case setopt_URL (h @ ''/api/'' @ endpoint) of
                  Some e \<Rightarrow> (Inl e, w, parameters)
                | None \<Rightarrow>
                    (case make_posting urlencode tok manual_post parameters of
                       Inl e \<Rightarrow> (Inl e, w, parameters)
                     | Inr (posting, parameters') \<Rightarrow>
                         (case setopt_POSTFIELDS posting of
                            Some e \<Rightarrow> (Inl e, w, parameters')
                          | None \<Rightarrow>
                              (case perform (h @ ''/api/'' @ endpoint) posting w of
                                 (Unreachable, w') \<Rightarrow> (Inl PycurlError, w', parameters')
                               | (Malformed, w') \<Rightarrow> (Inl JSONDecodeError, w', parameters')
                               | (Answer res, w') \<Rightarrow> (unwrap res, w', parameters')))))))"

text \<open>\<^verbatim>\<open>_go\<close>.\<close>

definition go ::
  "((string \<times> tree) list \<Rightarrow> string) \<Rightarrow> conduit \<Rightarrow> string \<Rightarrow> tree option \<Rightarrow> bool \<Rightarrow> world
     \<Rightarrow> (error + json) \<times> world \<times> tree option" where
  "go urlencode self operator params manual_post w =
     (case prefix self of
        None \<Rightarrow> (Inl (ConfigurationError ''no prefix configured''), w, params)
      | Some p \<Rightarrow> execute urlencode self (p @ ''.'' @ operator) manual_post params w)"

section \<open>Properties\<close>

subsection \<open>Auxiliary facts\<close>

lemma join_cons: "join sep (x # xs) = x @ concat (map (\<lambda>f. sep @ f) xs)"
  by (induction xs arbitrary: x) auto

text \<open>A dict whose values are all strings: one field per item, in the order of the dict.\<close>

lemma encode_dict_leaves:
  "encode_dict pfx (map (\<lambda>(k, v). (k, Str v)) kvs) nested =
     Inr (map (\<lambda>(k, v). (if nested then pfx @ ''['' @ k @ '']'' else k) @ ''='' @ v) kvs)"
  by (induction kvs) (auto split: prod.splits)

text \<open>A nested dict encodes like a top-level dict whose keys carry the brackets already.\<close>

lemma encode_dict_rename:
  "encode_dict pfx kvs True = encode_dict q (map (\<lambda>(k, v). (pfx @ ''['' @ k @ '']'', v)) kvs) False"
  by (induction kvs) (auto split: sum.splits)

text \<open>A list of strings: element \<open>i\<close> becomes the field \<^verbatim>\<open>prefix[i]=element\<close>.\<close>

lemma encode_list_from_leaves:
  "encode_list_from idx pfx (map Str vs) =
     Inr (map (\<lambda>(i, v). pfx @ ''['' @ str i @ '']='' @ v) (enumerate idx vs))"
  by (induction vs arbitrary: idx) auto

text \<open>A list with an element that is a dict or a list: \<^verbatim>\<open>_build\<close> raises on that element.\<close>

lemma encode_list_from_dict_element:
  "encode_list_from idx pfx (map Str vs @ Dict kvs # rest) = Inl TypeError"
  by (induction vs arbitrary: idx) auto

lemma encode_list_from_list_element:
  "encode_list_from idx pfx (map Str vs @ Lst us # rest) = Inl TypeError"
  by (induction vs arbitrary: idx) auto

text \<open>An empty dict or list yields nothing, and as a value of a dict it leaves the rest alone.\<close>

lemma encode_empty:
  "encode pfx (Dict []) child = Inr [] \<and> encode pfx (Lst []) child = Inr []"
  by (simp add: encode_list_def)

lemma encode_dict_append:
  "encode_dict pfx (xs @ ys) nested =
     (case encode_dict pfx xs nested of
        Inl e \<Rightarrow> Inl e
      | Inr es \<Rightarrow> (case encode_dict pfx ys nested of Inl e \<Rightarrow> Inl e | Inr fs \<Rightarrow> Inr (es @ fs)))"
proof (induction xs)
  case Nil
  show ?case by (simp split: sum.splits)
next
  case (Cons x xs)
  obtain k v where x: "x = (k, v)" by (cases x)
  show ?case
    using Cons.IH unfolding x by (cases nested) (auto split: sum.splits)
qed

lemma encode_dict_skip_empty:
  "encode_dict pfx (xs @ (k, Dict []) # ys) nested = encode_dict pfx (xs @ ys) nested
   \<and> encode_dict pfx (xs @ (k, Lst []) # ys) nested = encode_dict pfx (xs @ ys) nested"
proof -
  have d: "encode_dict pfx ((k, Dict []) # ys) nested = encode_dict pfx ys nested"
    by (cases nested) (simp_all split: sum.splits)
  have l: "encode_dict pfx ((k, Lst []) # ys) nested = encode_dict pfx ys nested"
    by (cases nested) (simp_all add: encode_list_def split: sum.splits)
  show ?thesis
    unfolding encode_dict_append [of pfx xs] d l by simp
qed

text \<open>Storing into a dict, seen as a map.\<close>

lemma map_of_replace:
  "map_of (map (\<lambda>(k, v). if k = key then (k, val) else (k, v)) xs) x =
     (if x = key then (if key \<in> fst ` set xs then Some val else None) else map_of xs x)"
  by (induction xs) (force simp: image_iff)+

lemma map_of_setitem: "map_of (setitem key val kvs) = (map_of kvs)(key \<mapsto> val)"
proof (cases "key \<in> set (map fst kvs)")
  case True
  then show ?thesis by (auto simp: setitem_def fun_eq_iff map_of_replace)
next
  case False
  then have "map_of kvs key = None" by (simp add: map_of_eq_None_iff)
  with False show ?thesis
    by (auto simp: setitem_def fun_eq_iff map_add_def split: option.splits)
qed

lemma keys_setitem:
  "map fst (setitem key val kvs) =
     (if key \<in> set (map fst kvs) then map fst kvs else map fst kvs @ [key])"
  by (auto simp: setitem_def split: prod.splits)

subsection \<open>The encoder\<close>

text \<open>
  Claim C1: a dict whose value at a key is a non-empty list of dicts with string leaves
  is encoded by recursion into each list element; \<^verbatim>\<open>{"transactions": [{"type":
  "custom.text", "value": "hi"}]}\<close> gives \<^verbatim>\<open>transactions[0][type]=custom.text\<close> and
  \<^verbatim>\<open>transactions[0][value]=hi\<close>. The source does not do this: \<^verbatim>\<open>_encode_list\<close>
  hands each element to \<^verbatim>\<open>_build\<close>, which concatenates it to a string, where
  \<^verbatim>\<open>_encode_dict\<close> hands each value back to \<^verbatim>\<open>_encode\<close>. On this input the
  encoder, and with it the construction of the manual-mode body, ends in
  \<^verbatim>\<open>TypeError\<close>.
\<close>

theorem encode_list_of_mappings_raises:
  "encode [] (Dict [(''transactions'',
       Lst [Dict [(''type'', Str ''custom.text''), (''value'', Str ''hi'')]])]) False = Inl TypeError
   \<and> manual_posting ''T'' (Some (Dict [(''transactions'',
       Lst [Dict [(''type'', Str ''custom.text''), (''value'', Str ''hi'')]])])) = Inl TypeError"
  by code_simp

text \<open>
  Claim C5: a single-level dict from string keys to string values, encoded at top level
  (prefix empty, \<^verbatim>\<open>child\<close> false), yields exactly one field per key, named by the bare
  key, in the iteration order of the dict.
\<close>

theorem encode_flat_mapping:
  "encode [] (Dict (map (\<lambda>(k, v). (k, Str v)) kvs)) False = Inr (map (\<lambda>(k, v). k @ ''='' @ v) kvs)"
  by (simp add: encode_dict_leaves)

text \<open>
  Claim C6: the keys of a dict nested as a value of another dict are bracket-nested onto
  the parent field name, while top-level keys stay bare.
  \<^verbatim>\<open>{"constraints": {"subscribers": ["P"]}}\<close> gives the single field
  \<^verbatim>\<open>constraints[subscribers][0]=P\<close>. In general a dict below the first level, under
  the accumulated prefix \<open>pfx\<close>, encodes like a top-level dict whose keys are
  \<open>pfx[key]\<close>; so a dict \<open>inner\<close> under the top-level key \<open>k\<close> encodes like the
  top-level dict with the keys \<open>k[j]\<close>, and with string values it yields the fields
  \<open>k[j]=v\<close>.
\<close>

theorem encode_nested_mapping:
  "encode [] (Dict [(''constraints'', Dict [(''subscribers'', Lst [Str ''P''])])]) False
     = Inr [''constraints[subscribers][0]=P'']
   \<and> encode pfx (Dict inner) True
     = encode [] (Dict (map (\<lambda>(j, v). (pfx @ ''['' @ j @ '']'', v)) inner)) False
   \<and> encode [] (Dict [(k, Dict inner)]) False
     = encode [] (Dict (map (\<lambda>(j, v). (k @ ''['' @ j @ '']'', v)) inner)) False
   \<and> encode [] (Dict [(k, Dict (map (\<lambda>(j, v). (j, Str v)) leaves))]) False
     = Inr (map (\<lambda>(j, v). k @ ''['' @ j @ '']='' @ v) leaves)"
proof -
  have a: "encode [] (Dict [(''constraints'', Dict [(''subscribers'', Lst [Str ''P''])])]) False
             = Inr [''constraints[subscribers][0]=P'']"
    by code_simp
  have b: "encode pfx (Dict inner) True
             = encode [] (Dict (map (\<lambda>(j, v). (pfx @ ''['' @ j @ '']'', v)) inner)) False" for pfx
    using encode_dict_rename [of pfx inner "[]"] by simp
  have c: "encode [] (Dict [(k, Dict inner)]) False = encode k (Dict inner) True"
    by (simp split: sum.splits)
  have d: "encode [] (Dict [(k, Dict (map (\<lambda>(j, v). (j, Str v)) leaves))]) False
             = Inr (map (\<lambda>(j, v). k @ ''['' @ j @ '']='' @ v) leaves)"
    by (simp add: encode_dict_leaves)
  show ?thesis
    using a b [of pfx] b [of k] c d by simp
qed

text \<open>
  Claim C8: an empty dict or an empty list as a subtree, at the top level or at any
  nested depth, yields no field and raises no error, and the rest of the tree encodes
  as if it were absent. This holds for an empty subtree that is the whole tree or a
  value of a dict (lemmas \<open>encode_empty\<close> and \<open>encode_dict_skip_empty\<close>). It does
  not hold for an empty subtree that is an element of a list: \<^verbatim>\<open>_encode_list\<close> hands
  the element to \<^verbatim>\<open>_build\<close> without encoding it, and \<^verbatim>\<open>{"a": [{}]}\<close>,
  \<^verbatim>\<open>{"a": [[]]}\<close> and \<^verbatim>\<open>["x", []]\<close> end in \<^verbatim>\<open>TypeError\<close>.
\<close>

theorem encode_empty_in_list_raises:
  "encode [] (Dict [(''a'', Lst [Dict []])]) False = Inl TypeError
   \<and> encode [] (Dict [(''a'', Lst [Lst []])]) False = Inl TypeError
   \<and> encode [] (Lst [Str ''x'', Lst []]) False = Inl TypeError
   \<and> manual_posting ''T'' (Some (Dict [(''a'', Lst [Dict []])])) = Inl TypeError"
  by code_simp

subsection \<open>The dispatcher\<close>

text \<open>
  The body in manual mode is not, for every parameter tree, the token field followed by
  what the encoder yields for the tree: \<^verbatim>\<open>_execute\<close> calls the encoder only when
  \<^verbatim>\<open>len(parameters) > 0\<close>. For the empty string as the whole tree the encoder yields
  the one field \<^verbatim>\<open>=\<close>, and the body is the token field alone.
\<close>

theorem manual_posting_empty_string_counterexample:
  "encode [] (Str []) False = Inr [''='']
   \<and> manual_posting ''T'' (Some (Str [])) = Inr ''api.token=T''
   \<and> manual_posting ''T'' (Some (Str [])) \<noteq> Inr (join ''&'' [''api.token=T'', ''=''])"
  by code_simp

text \<open>
  Claim C2, amended: for every token and every parameter tree on which the encoder
  yields fields, the manual-mode body is the token field \<^verbatim>\<open>api.token=<token>\<close> alone
  when the parameters are absent or have length zero (an empty dict, an empty list or
  the empty string), and otherwise the \<^verbatim>\<open>&\<close>-join of the token field followed by the
  fields of the encoder in their order. The body begins with the token field, and every
  field stands in it as the encoder gave it: nothing is percent-encoded.
\<close>

theorem manual_posting_body:
  assumes "encode [] p False = Inr fs"
  shows "manual_posting tok None = Inr (''api.token='' @ tok)
       \<and> manual_posting tok (Some p) =
           (if len p = 0 then Inr (''api.token='' @ tok)
            else Inr (join ''&'' ((''api.token='' @ tok) # fs)))
       \<and> join ''&'' ((''api.token='' @ tok) # fs)
           = ''api.token='' @ tok @ concat (map (\<lambda>f. ''&'' @ f) fs)"
  using assms by (simp add: manual_posting_def join_cons)

theorem manual_posting_body_witness:
  "manual_posting ''T'' None = Inr ''api.token=T''
   \<and> manual_posting ''T'' (Some (Dict [(''status'', Str ''status-open''), (''ccPHIDs'', Lst [Str ''a&b=c d''])]))
       = Inr ''api.token=T&status=status-open&ccPHIDs[0]=a&b=c d''"
proof -
  have e: "encode [] (Dict [(''status'', Str ''status-open''), (''ccPHIDs'', Lst [Str ''a&b=c d''])]) False
             = Inr [''status=status-open'', ''ccPHIDs[0]=a&b=c d'']"
    by code_simp
  show ?thesis
    using manual_posting_body [OF e, of "''T''"] by simp
qed

text \<open>
  Claim C3: a call with the prefix unset, with the token unset or with the host unset
  fails with a configuration error, raised before any request: the world after the call
  is the world before it (no request performed, no reply consumed), and the caller's
  parameters are untouched. The prefix is checked first, then the token, then the host.
\<close>

theorem go_unconfigured:
  assumes "prefix self = None \<or> token self = None \<or> host self = None"
  shows "go urlencode self operator params manual_post w =
           (Inl (ConfigurationError
                  (if prefix self = None then ''no prefix configured''
                   else if token self = None then ''no token given...''
                   else ''no host given...'')), w, params)"
  using assms by (auto simp: go_def execute_def split: option.splits)

theorem go_unconfigured_witness:
  "go (\<lambda>kvs. []) \<lparr>token = Some ''T'', host = Some ''https://h'', prefix = None\<rparr> ''whoami'' None True
      \<lparr>requests = [], replies = [Answer JNull]\<rparr>
     = (Inl (ConfigurationError ''no prefix configured''), \<lparr>requests = [], replies = [Answer JNull]\<rparr>, None)
   \<and> go (\<lambda>kvs. []) \<lparr>token = None, host = Some ''https://h'', prefix = Some ''user''\<rparr> ''whoami'' None True
      \<lparr>requests = [], replies = [Answer JNull]\<rparr>
     = (Inl (ConfigurationError ''no token given...''), \<lparr>requests = [], replies = [Answer JNull]\<rparr>, None)
   \<and> go (\<lambda>kvs. []) \<lparr>token = Some ''T'', host = None, prefix = Some ''user''\<rparr> ''whoami'' None True
      \<lparr>requests = [], replies = [Answer JNull]\<rparr>
     = (Inl (ConfigurationError ''no host given...''), \<lparr>requests = [], replies = [Answer JNull]\<rparr>, None)"
  using go_unconfigured [where self = "\<lparr>token = Some ''T'', host = Some ''https://h'', prefix = None\<rparr>"
              and urlencode = "\<lambda>kvs. []" and operator = "''whoami''" and params = None and manual_post = True
              and w = "\<lparr>requests = [], replies = [Answer JNull]\<rparr>"]
        go_unconfigured [where self = "\<lparr>token = None, host = Some ''https://h'', prefix = Some ''user''\<rparr>"
              and urlencode = "\<lambda>kvs. []" and operator = "''whoami''" and params = None and manual_post = True
              and w = "\<lparr>requests = [], replies = [Answer JNull]\<rparr>"]
        go_unconfigured [where self = "\<lparr>token = Some ''T'', host = None, prefix = Some ''user''\<rparr>"
              and urlencode = "\<lambda>kvs. []" and operator = "''whoami''" and params = None and manual_post = True
              and w = "\<lparr>requests = [], replies = [Answer JNull]\<rparr>"]
  by simp

text \<open>When the handle accepts the URL and the body, the call performs the transfer.\<close>

lemma setopt_URL_accepts: "setopt_URL v = None \<longleftrightarrow> ascii v \<and> CHR 0x00 \<notin> set v"
  by (simp add: setopt_URL_def)

lemma setopt_POSTFIELDS_accepts: "setopt_POSTFIELDS v = None \<longleftrightarrow> ascii v"
  by (simp add: setopt_POSTFIELDS_def)

lemma go_performs:
  assumes "prefix self = Some ns" and "token self = Some tok" and "host self = Some h"
    and "make_posting urlencode tok manual_post params = Inr (posting, params')"
    and "ascii (h @ ''/api/'' @ ns @ ''.'' @ operator)"
    and "CHR 0x00 \<notin> set (h @ ''/api/'' @ ns @ ''.'' @ operator)"
    and "ascii posting"
  shows "go urlencode self operator params manual_post w =
           ((case fst (perform (h @ ''/api/'' @ ns @ ''.'' @ operator) posting w) of
               Unreachable \<Rightarrow> Inl PycurlError
             | Malformed \<Rightarrow> Inl JSONDecodeError
             | Answer res \<Rightarrow> unwrap res),
            snd (perform (h @ ''/api/'' @ ns @ ''.'' @ operator) posting w), params')"
proof -
  have u: "setopt_URL (h @ ''/api/'' @ ns @ ''.'' @ operator) = None"
    using assms(5,6) by (simp add: setopt_URL_accepts)
  have p: "setopt_POSTFIELDS posting = None"
    using assms(7) by (simp add: setopt_POSTFIELDS_accepts)
  show ?thesis
    using assms(1-4) u p
    by (simp add: go_def execute_def split: prod.splits reply.splits)
qed


text \<open>
  Claim C4: for a response envelope with the keys \<^verbatim>\<open>result\<close>, \<^verbatim>\<open>error_code\<close> and
  \<^verbatim>\<open>error_info\<close>, the call that receives it (the call takes the envelope from the
  replies of the world) returns the result unchanged when \<^verbatim>\<open>error_code\<close> is null, and
  otherwise raises the API error that carries exactly \<^verbatim>\<open>error_info\<close>.
\<close>

theorem go_unwraps_envelope:
  assumes "replies w = Answer (JObj env) # rest"
    and "replies (fst (snd (go urlencode self operator params manual_post w))) = rest"
    and "map_of env ''error_code'' = Some code"
    and "map_of env ''result'' = Some r"
    and "map_of env ''error_info'' = Some info"
  shows "fst (go urlencode self operator params manual_post w) =
           (if code = JNull then Inr r else Inl (ApiError info))"
proof -
  have unchanged: "replies w \<noteq> rest"
    using assms(1) by simp
  show ?thesis
    using assms unchanged
    by (auto simp: go_def execute_def perform_def unwrap_def
             split: option.splits sum.splits prod.splits)
qed

theorem go_unwraps_envelope_witness:
  "fst (go (\<lambda>kvs. []) \<lparr>token = Some ''T'', host = Some ''https://h'', prefix = Some ''user''\<rparr> ''whoami'' None True
      \<lparr>requests = [], replies = [Answer (JObj [(''result'', JNull), (''error_code'', JStr ''ERR-BAD-TOKEN''),
                                                (''error_info'', JStr ''Invalid token.'')])]\<rparr>)
     = Inl (ApiError (JStr ''Invalid token.''))
   \<and> fst (go (\<lambda>kvs. []) \<lparr>token = Some ''T'', host = Some ''https://h'', prefix = Some ''user''\<rparr> ''whoami'' None True
      \<lparr>requests = [], replies = [Answer (JObj [(''result'', JObj [(''phid'', JStr ''PHID-USER-1'')]),
                                                (''error_code'', JNull), (''error_info'', JNull)])]\<rparr>)
     = Inr (JObj [(''phid'', JStr ''PHID-USER-1'')])"
proof -
  let ?self = "\<lparr>token = Some ''T'', host = Some ''https://h'', prefix = Some ''user''\<rparr>"
  let ?bad = "[(''result'', JNull), (''error_code'', JStr ''ERR-BAD-TOKEN''),
               (''error_info'', JStr ''Invalid token.'')]"
  let ?good = "[(''result'', JObj [(''phid'', JStr ''PHID-USER-1'')]),
                (''error_code'', JNull), (''error_info'', JNull)]"
  have u: "ascii ''https://h/api/user.whoami''" "ascii ''api.token=T''"
    by code_simp+
  have p: "make_posting (\<lambda>kvs. []) ''T'' True None = Inr (''api.token=T'', None)"
    by (simp add: make_posting_def manual_posting_def)
  have consumed: "replies (fst (snd (go (\<lambda>kvs. []) ?self ''whoami'' None True
                     \<lparr>requests = [], replies = [Answer (JObj env)]\<rparr>))) = []" for env
    using u by (simp add: go_performs [where ns = "''user''" and tok = "''T''" and h = "''https://h''", OF _ _ _ p]
                          perform_def)
  show ?thesis
    using go_unwraps_envelope
            [where w = "\<lparr>requests = [], replies = [Answer (JObj ?bad)]\<rparr>" and env = ?bad and rest = "[]",
             OF _ consumed, where code = "JStr ''ERR-BAD-TOKEN''" and r = JNull
               and info = "JStr ''Invalid token.''"]
          go_unwraps_envelope
            [where w = "\<lparr>requests = [], replies = [Answer (JObj ?good)]\<rparr>" and env = ?good and rest = "[]",
             OF _ consumed, where code = JNull and r = "JObj [(''phid'', JStr ''PHID-USER-1'')]"
               and info = JNull]
    by simp
qed




text \<open>
  Claim C9: a call in standard mode (\<^verbatim>\<open>manual_post\<close> false) with a dict of the
  caller as parameters changes that dict in place. After a call that returns or raises an
  API error, the caller's dict is the dict it passed with the dispatcher's token stored
  under \<^verbatim>\<open>api.token\<close>: that key is bound to the token, whatever it was bound to
  before, every other key is bound as before, and the keys keep their order, with
  \<^verbatim>\<open>api.token\<close> added at the end when it was not there.
\<close>

theorem go_standard_mode_stores_token:
  assumes "go urlencode self operator (Some (Dict kvs)) False w = (res, w', params')"
    and "(\<exists>r. res = Inr r) \<or> (\<exists>info. res = Inl (ApiError info))"
  shows "\<exists>tok. token self = Some tok
           \<and> params' = Some (Dict (setitem ''api.token'' (Str tok) kvs))
           \<and> map_of (setitem ''api.token'' (Str tok) kvs) ''api.token'' = Some (Str tok)
           \<and> (\<forall>k. k \<noteq> ''api.token'' \<longrightarrow>
                 map_of (setitem ''api.token'' (Str tok) kvs) k = map_of kvs k)
           \<and> map fst (setitem ''api.token'' (Str tok) kvs) =
                 (if ''api.token'' \<in> set (map fst kvs) then map fst kvs
                  else map fst kvs @ [''api.token''])"
proof -
  from assms obtain tok where tok: "token self = Some tok"
    by (auto simp: go_def execute_def split: option.splits)
  from assms tok have "params' = Some (Dict (setitem ''api.token'' (Str tok) kvs))"
    by (auto simp: go_def execute_def make_posting_def standard_posting_def perform_def
                   setopt_URL_def setopt_POSTFIELDS_def
             split: option.splits list.splits reply.splits if_splits)
  with tok show ?thesis
    by (simp add: map_of_setitem keys_setitem)
qed

theorem go_standard_mode_stores_token_witness:
  "snd (snd (go (\<lambda>kvs. []) \<lparr>token = Some ''T'', host = Some ''https://h'', prefix = Some ''phriction''\<rparr>
       ''edit'' (Some (Dict [(''slug'', Str ''s''), (''api.token'', Str ''old''), (''title'', Str ''t'')])) False
       \<lparr>requests = [], replies = [Answer (JObj [(''result'', JNull), (''error_code'', JStr ''ERR''),
                                                 (''error_info'', JStr ''no'')])]\<rparr>))
     = Some (Dict [(''slug'', Str ''s''), (''api.token'', Str ''T''), (''title'', Str ''t'')])"
proof -
  let ?self = "\<lparr>token = Some ''T'', host = Some ''https://h'', prefix = Some ''phriction''\<rparr>"
  let ?kvs = "[(''slug'', Str ''s''), (''api.token'', Str ''old''), (''title'', Str ''t'')]"
  let ?w = "\<lparr>requests = [], replies = [Answer (JObj [(''result'', JNull), (''error_code'', JStr ''ERR''),
                                                 (''error_info'', JStr ''no'')])]\<rparr>"
  obtain res w' params' where g: "go (\<lambda>kvs. []) ?self ''edit'' (Some (Dict ?kvs)) False ?w = (res, w', params')"
    by (metis prod_cases3)
  have r: "fst (go (\<lambda>kvs. []) ?self ''edit'' (Some (Dict ?kvs)) False ?w) = Inl (ApiError (JStr ''no''))"
    by code_simp
  with g have "(\<exists>r. res = Inr r) \<or> (\<exists>info. res = Inl (ApiError info))" by simp
  from go_standard_mode_stores_token [OF g this]
  have "params' = Some (Dict (setitem ''api.token'' (Str ''T'') ?kvs))"
    by auto
  then have "params' = Some (Dict [(''slug'', Str ''s''), (''api.token'', Str ''T''), (''title'', Str ''t'')])"
    by (simp add: setitem_def)
  with g show ?thesis by simp
qed




end
